theory Spec2Isabelle
  imports Main "HOL-Library.Word"
begin

unbundle bit_operations_syntax

section \<open>The driver of clzip (main.c)\<close>

text \<open>
  A shallow embedding of the driver in \<^verbatim>\<open>main.c\<close>: option processing, the loop over
  the input files, \<^verbatim>\<open>compress\<close>, \<^verbatim>\<open>decompress\<close> and their helpers.

  The process is modelled by explicit state passing. The state holds the global variables
  of main.c and a trace of what the process did that can be observed from outside:
  the diagnostics it wrote and the file operations it made. A function that can terminate
  the process returns a \<open>result\<close>: either \<open>Exit status st\<close> (the process ended with that
  status, in that state) or \<open>Ret v st\<close> (the function returned \<open>v\<close>).

  What main.c takes from other files (lzip.h, decoder.h, encoder.h, carg_parser.h, the C
  library and the operating system) is a parameter: the records \<open>lzip_h\<close>, \<open>codec\<close> and
  \<open>sys\<close> below. The theorems hold for every value of these parameters, under the
  hypotheses they state.
\<close>

subsection \<open>Bytes, text and numbers\<close>

type_synonym byte = "8 word"

text \<open>\<^verbatim>\<open>'0' + n\<close> on characters.\<close>

definition digit_char :: "nat \<Rightarrow> char" where
  "digit_char n = char_of (of_char (CHR ''0'') + n)"

text \<open>What \<^verbatim>\<open>printf\<close> writes for \<^verbatim>\<open>%u\<close> and \<^verbatim>\<open>%llu\<close>: the decimal digits, most significant first.\<close>

fun show_nat :: "nat \<Rightarrow> string" where
  "show_nat n = (if n < 10 then [digit_char n] else show_nat (n div 10) @ [digit_char (n mod 10)])"

declare show_nat.simps [simp del]

subsection \<open>The process state\<close>

text \<open>
  The trace records, in order: the calls of \<^verbatim>\<open>show_error\<close>, \<^verbatim>\<open>show_file_error\<close> and
  \<^verbatim>\<open>Pp_show_msg\<close> that write (those made with \<^verbatim>\<open>verbosity >= 0\<close>), other text written
  to stderr or stdout, the file operations, and the calls of the member decoder and
  encoder. \<open>Pp_msg None\<close> is \<^verbatim>\<open>Pp_show_msg( pp, 0 )\<close>, which writes the padded file name
  when it has not been written yet. The progress display (\<^verbatim>\<open>show_cprogress\<close>,
  \<^verbatim>\<open>show_dprogress\<close>) and the padding of names are left out.
\<close>

datatype event =
    Show_error string bool bool        \<comment> \<open>message, \<^verbatim>\<open>errcode > 0\<close>, help line\<close>
  | Show_file_error string string bool \<comment> \<open>file name, message, \<^verbatim>\<open>errcode > 0\<close>\<close>
  | Pp_msg "string option"
  | Stderr string
  | Stdout string
  | Open_in string
  | Close_in string
  | Open_out string bool               \<comment> \<open>name, \<^verbatim>\<open>O_TRUNC\<close> (force) or \<^verbatim>\<open>O_EXCL\<close>\<close>
  | Close_out string
  | Set_attrs string
  | Remove string
  | Decode_member nat                  \<comment> \<open>\<^verbatim>\<open>LZd_decode_member\<close> with this dictionary size\<close>
  | Encode_member bool string nat nat  \<comment> \<open>level 0 encoder, output file, size budget, bytes written\<close>

record state =
  verbosity :: int
  output_filename :: string
  outfd :: int
  delete_output_on_interrupt :: bool
  pp_name :: string
  trace :: "event list"

datatype 'a result = Exit int state | Ret 'a state

definition emit :: "event \<Rightarrow> state \<Rightarrow> state" where
  "emit e st = st\<lparr>trace := trace st @ [e]\<rparr>"

definition STDOUT_FILENO :: int where
  "STDOUT_FILENO = 1"

text \<open>main.c lines 801-829.\<close>

definition show_error :: "string \<Rightarrow> bool \<Rightarrow> bool \<Rightarrow> state \<Rightarrow> state" where
  "show_error msg errcode help st =
     (if verbosity st < 0 then st else emit (Show_error msg errcode help) st)"

definition show_file_error :: "string \<Rightarrow> string \<Rightarrow> bool \<Rightarrow> state \<Rightarrow> state" where
  "show_file_error filename msg errcode st =
     (if verbosity st \<ge> 0 then emit (Show_file_error filename msg errcode) st else st)"

definition internal_error :: "string \<Rightarrow> state \<Rightarrow> 'a result" where
  "internal_error msg st =
     Exit 3 (if verbosity st \<ge> 0
             then emit (Stderr (''clzip: internal error: '' @ msg)) st else st)"

text \<open>main.c lines 238-259.\<close>

definition Pp_show_msg :: "string option \<Rightarrow> state \<Rightarrow> state" where
  "Pp_show_msg msg st = (if verbosity st \<ge> 0 then emit (Pp_msg msg) st else st)"

definition bad_version :: "nat \<Rightarrow> string" where
  "bad_version version = ''Version '' @ show_nat version @ '' member format not supported.''"

subsection \<open>What main.c takes from lzip.h\<close>

text \<open>
  The constants, messages and inline functions of lzip.h that main.c uses. A header is
  the list of the bytes read into the 6-byte buffer.
\<close>

record lzip_h =
  min_dictionary_bits :: int
  max_dictionary_bits :: int
  min_dictionary_size :: nat
  max_dictionary_size :: nat
  min_match_len_limit :: nat
  max_match_len :: nat
  bad_magic_msg :: string
  bad_dict_msg :: string
  corrupt_mm_msg :: string
  trailing_msg :: string
  mem_msg :: string
  isvalid_ds :: "nat \<Rightarrow> bool"
  Lh_verify_magic :: "byte list \<Rightarrow> bool"
  Lh_verify_prefix :: "byte list \<Rightarrow> nat \<Rightarrow> bool"
  Lh_verify_corrupt :: "byte list \<Rightarrow> bool"
  Lh_version :: "byte list \<Rightarrow> byte"
  Lh_verify_version :: "byte list \<Rightarrow> bool"
  Lh_get_dictionary_size :: "byte list \<Rightarrow> nat"
  Lh_set_dictionary_size :: "int \<Rightarrow> byte list option"
  set_retval :: "int \<Rightarrow> int \<Rightarrow> int"

text \<open>
  Modelled from the spec: \<^verbatim>\<open>Lh_size\<close>, the size of a member header (lzip.h is not among
  the sources). The spec: a 6-byte header (4 magic bytes, 1 version byte, 1
  dictionary-size byte).
\<close>

definition Lh_size :: nat where
  "Lh_size = 6"

subsection \<open>The member decoder and encoder\<close>

text \<open>
  The codec is not part of main.c. \<open>LZd_decode_member c ds inp\<close> is what decoding one
  member does on the input \<open>inp\<close> that follows the member's header: the result of
  \<^verbatim>\<open>LZd_decode_member\<close> (0 when the member is sound) and the number of bytes it read.
  \<open>Rd_init\<close>, \<open>LZd_init\<close>, \<open>LZe_init\<close> and \<open>FLZe_init\<close> say whether the allocation
  succeeds.

  The encoder answers each call of \<^verbatim>\<open>LZe_encode_member\<close> or \<^verbatim>\<open>FLZe_encode_member\<close> with a
  \<open>member\<close> that depends on the size budget of the call: whether the call succeeded,
  \<^verbatim>\<open>Mb_data_position\<close> and \<^verbatim>\<open>Re_member_position\<close> after it. The answers for one input
  (named as the system names it) are a first answer and the list of those that follow;
  \<^verbatim>\<open>Mb_data_finished\<close> holds after the last of them.
\<close>

record member =
  encoded :: bool
  data_position :: nat
  member_position :: nat

type_synonym members = "(nat \<Rightarrow> member) \<times> (nat \<Rightarrow> member) list"

record Lzma_options =
  dictionary_size :: int
  match_len_limit :: int

record codec =
  Rd_init :: bool
  LZd_init :: "nat \<Rightarrow> bool"
  LZd_decode_member :: "nat \<Rightarrow> byte list \<Rightarrow> int \<times> nat"
  FLZe_init :: bool
  LZe_init :: "nat \<Rightarrow> int \<Rightarrow> bool"
  FLZe_members :: "string \<Rightarrow> members"
  LZe_members :: "nat \<Rightarrow> int \<Rightarrow> string \<Rightarrow> members"

subsection \<open>What main.c takes from the C library and the operating system\<close>

text \<open>
  The answers of the system calls. An answer may depend on everything the process did
  before (the trace) and on the name of the file the call is about; the input opened
  from standard input goes under the name \<open>''-''\<close>, standard output under the empty name.

  \<open>strtoull s\<close> is the value, the number of characters converted (the tail starts
  after them) and whether \<^verbatim>\<open>errno\<close> was set; \<open>strtol s\<close> the value and the number of
  characters converted.
\<close>

datatype file_type = S_IFREG | S_IFBLK | S_IFCHR | S_IFIFO | S_IFSOCK | S_IFOTHER

record sys =
  strtoull :: "string \<Rightarrow> nat \<times> nat \<times> bool"
  strtol :: "string \<Rightarrow> int \<times> nat"
  open_in_ok :: "event list \<Rightarrow> string \<Rightarrow> bool"
  fstat_ok :: "event list \<Rightarrow> string \<Rightarrow> bool"
  st_mode :: "event list \<Rightarrow> string \<Rightarrow> file_type"
  isatty_in :: "event list \<Rightarrow> string \<Rightarrow> bool"
  isatty_out :: "event list \<Rightarrow> string \<Rightarrow> bool"
  content :: "event list \<Rightarrow> string \<Rightarrow> byte list"
  close_in_ok :: "event list \<Rightarrow> string \<Rightarrow> bool"
  open_out_ok :: "event list \<Rightarrow> string \<Rightarrow> bool \<Rightarrow> bool"
  open_out_eexist :: "event list \<Rightarrow> string \<Rightarrow> bool"
  fchown_fchmod_ok :: "event list \<Rightarrow> string \<Rightarrow> bool"
  close_out_ok :: "event list \<Rightarrow> string \<Rightarrow> bool"
  utime_ok :: "event list \<Rightarrow> string \<Rightarrow> bool"
  remove_fails :: "event list \<Rightarrow> string \<Rightarrow> bool"
  list_files :: "string list \<Rightarrow> bool \<Rightarrow> bool \<Rightarrow> int"

subsection \<open>cleanup_and_fail (main.c lines 490-504)\<close>

text \<open>
  \<open>remove_fails\<close> stands for \<^verbatim>\<open>remove( output_filename ) != 0 && errno != ENOENT\<close>.
\<close>

definition quoted :: "string \<Rightarrow> string" where
  "quoted s = [CHR 0x27] @ s @ [CHR 0x27]"

definition cleanup_and_fail :: "sys \<Rightarrow> int \<Rightarrow> state \<Rightarrow> 'a result" where
  "cleanup_and_fail s retval st =
     (if delete_output_on_interrupt st then
        let st1 = st\<lparr>delete_output_on_interrupt := False\<rparr>;
            st2 = (if verbosity st1 \<ge> 0
                   then emit (Stderr (''clzip: Deleting output file '' @
                                      quoted (output_filename st1) @ '', if it exists.'')) st1
                   else st1);
            st3 = (if outfd st2 \<ge> 0
                   then (emit (Close_out (output_filename st2)) st2)\<lparr>outfd := - 1\<rparr> else st2);
            st4 = emit (Remove (output_filename st3)) st3;
            st5 = (if remove_fails s (trace st3) (output_filename st3)
                   then show_error ''WARNING: deletion of output file (apparently) failed.''
                          False False st4
                   else st4)
        in Exit retval st5
      else Exit retval st)"

subsection \<open>decompress (main.c lines 683-798)\<close>

definition xdigit :: "nat \<Rightarrow> char" where
  "xdigit v = (if v \<le> 9 then char_of (of_char (CHR ''0'') + v)
               else if v \<le> 15 then char_of (of_char (CHR ''A'') + v - 10)
               else char_of (0::nat))"

text \<open>\<^verbatim>\<open>isprint\<close> in the C locale, the one main.c runs in.\<close>

definition isprint :: "byte \<Rightarrow> bool" where
  "isprint b = (0x20 \<le> b \<and> b \<le> 0x7E)"

text \<open>
  The buffer that \<^verbatim>\<open>show_trailing_data\<close> fills: 80 characters, the last one for the
  terminating zero. The first loop writes the bytes in hexadecimal while three more
  characters fit, the second loop writes them as text while one more fits.
\<close>

fun trailing_hex :: "byte list \<Rightarrow> string \<Rightarrow> string" where
  "trailing_hex [] buf = buf"
| "trailing_hex (d # ds) buf =
     (if length buf + 2 < 80
      then trailing_hex ds (buf @ [xdigit (unat (drop_bit 4 d)), xdigit (unat (d AND 0x0F)), CHR '' ''])
      else buf)"

fun trailing_text :: "byte list \<Rightarrow> string \<Rightarrow> string" where
  "trailing_text [] buf = buf"
| "trailing_text (d # ds) buf =
     (if length buf < 80
      then trailing_text ds (buf @ [if isprint d then char_of (unat d) else CHR ''.''])
      else buf)"

definition trailing_buf :: "byte list \<Rightarrow> nat \<Rightarrow> bool \<Rightarrow> string" where
  "trailing_buf data sz all =
     (let b0 = (if all then [] else ''first bytes of '') @ ''trailing data = '';
          b1 = trailing_hex (take sz data) b0;
          b2 = (if length b1 < 80 then b1 @ [CHR 0x27] else b1);
          b3 = trailing_text (take sz data) b2;
          b4 = (if length b3 < 80 then b3 @ [CHR 0x27] else b3)
      in if length b4 < 80 then b4 else take 79 b4)"

definition show_trailing_data ::
  "lzip_h \<Rightarrow> byte list \<Rightarrow> nat \<Rightarrow> bool \<Rightarrow> int \<Rightarrow> state \<Rightarrow> bool \<times> state" where
  "show_trailing_data h data sz all ignore_trailing st =
     (ignore_trailing > 0,
      if verbosity st \<ge> 4 \<or> ignore_trailing \<le> 0 then
        let st1 = Pp_show_msg (Some (trailing_buf data sz all)) st
        in if ignore_trailing = 0
           then show_file_error (pp_name st1) (trailing_msg h) False st1 else st1
      else st)"

text \<open>A C \<^verbatim>\<open>bool\<close> passed for an \<^verbatim>\<open>int\<close> parameter.\<close>

definition int_of_bool :: "bool \<Rightarrow> int" where
  "int_of_bool b = (if b then 1 else 0)"

text \<open>
  The loop over the members (lines 730-793), with \<open>inp\<close> the input not yet read. The
  result is \<^verbatim>\<open>retval\<close> at the \<^verbatim>\<open>break\<close> that leaves the loop.

  Modelled from the spec: the input source behind \<^verbatim>\<open>Rd_read_data\<close> and \<^verbatim>\<open>Rd_finished\<close>
  (decoder.h is not among the sources). The spec: an input byte source (read N bytes,
  giving the actual bytes, or EOF) that detects the end of input. \<^verbatim>\<open>Rd_read_data\<close> reads
  the next \<open>Lh_size\<close> bytes, or as many as are left; \<^verbatim>\<open>Rd_finished\<close> holds when no
  byte is left after them. \<^verbatim>\<open>Rd_member_position\<close> after a member is the header's size
  and the bytes the decoder read.
\<close>

function decompress_members ::
  "lzip_h \<Rightarrow> codec \<Rightarrow> bool \<Rightarrow> bool \<Rightarrow> bool \<Rightarrow> bool \<Rightarrow> nat \<Rightarrow> byte list \<Rightarrow> state \<Rightarrow> int \<times> state"
where
  "decompress_members h c ignore_trailing loose_trailing testing first_member partial_file_pos inp st =
     (let header = take Lh_size inp; sz = length header; rest = drop Lh_size inp in
      if rest = [] then
        (if first_member then
           (2, show_file_error (pp_name st) ''File ends unexpectedly at member header.'' False st)
         else if Lh_verify_prefix h header sz then
           (2, snd (show_trailing_data h header sz True (- 1)
                      (Pp_show_msg (Some ''Truncated header in multimember file.'') st)))
         else if sz > 0 then
           (case show_trailing_data h header sz True (int_of_bool ignore_trailing) st of
              (shown, st1) \<Rightarrow> (if shown then 0 else 2, st1))
         else (0, st))
      else if \<not> Lh_verify_magic h header then
        (if first_member then
           (2, show_file_error (pp_name st) (bad_magic_msg h) False st)
         else if \<not> loose_trailing \<and> Lh_verify_corrupt h header then
           (2, snd (show_trailing_data h header sz False (- 1)
                      (Pp_show_msg (Some (corrupt_mm_msg h)) st)))
         else
           (case show_trailing_data h header sz False (int_of_bool ignore_trailing) st of
              (shown, st1) \<Rightarrow> (if shown then 0 else 2, st1)))
      else if \<not> Lh_verify_version h header then
        (2, Pp_show_msg (Some (bad_version (unat (Lh_version h header)))) st)
      else
        let dictionary_size = Lh_get_dictionary_size h header in
        if \<not> isvalid_ds h dictionary_size then
          (2, Pp_show_msg (Some (bad_dict_msg h)) st)
        else
          let st1 = (if verbosity st \<ge> 2 \<or> (verbosity st = 1 \<and> first_member)
                     then Pp_show_msg None st else st)
          in
          if \<not> LZd_init c dictionary_size then
            (1, Pp_show_msg (Some (mem_msg h)) st1)
          else
            let (result, n) = LZd_decode_member c dictionary_size rest;
                st2 = emit (Decode_member dictionary_size) st1;
                pos = partial_file_pos + (Lh_size + n)
            in
            if result \<noteq> 0 then
              (2, if verbosity st2 \<ge> 0 \<and> result \<le> 2 then
                    emit (Stderr ((if result = 2 then ''File ends unexpectedly''
                                   else ''Decoder error'') @ '' at pos '' @ show_nat pos))
                      (Pp_show_msg None st2)
                  else st2)
            else
              decompress_members h c ignore_trailing loose_trailing testing False pos
                (drop n rest)
                (if verbosity st2 \<ge> 2
                 then emit (Stderr (if testing then ''ok'' else ''done'')) st2 else st2))"
  by pat_completeness auto
termination
  by (relation "measure (\<lambda>(h, c, it, lt, t, f, p, inp, st). length inp)")
     (auto simp: Lh_size_def)

declare decompress_members.simps [simp del]

definition decompress ::
  "lzip_h \<Rightarrow> codec \<Rightarrow> sys \<Rightarrow> byte list \<Rightarrow> bool \<Rightarrow> bool \<Rightarrow> bool \<Rightarrow> state \<Rightarrow> int result" where
  "decompress h c s inp ignore_trailing loose_trailing testing st =
     (if \<not> Rd_init c then
        cleanup_and_fail s 1 (show_error (mem_msg h) False False st)
      else
        case decompress_members h c ignore_trailing loose_trailing testing True 0 inp st of
          (retval, st1) \<Rightarrow>
            Ret retval (if verbosity st1 = 1 \<and> retval = 0
                        then emit (Stderr (if testing then ''ok'' else ''done'')) st1 else st1))"

subsection \<open>File names and output files (main.c lines 361-479, 515-585)\<close>

definition known_extensions :: "(string \<times> string) list" where
  "known_extensions = [(''.lz'', []), (''.tlz'', ''.tar'')]"

fun extension_index_from :: "int \<Rightarrow> (string \<times> string) list \<Rightarrow> string \<Rightarrow> int" where
  "extension_index_from eindex [] name = - 1"
| "extension_index_from eindex ((ext, to) # es) name =
     (if length name > length ext \<and> drop (length name - length ext) name = ext
      then eindex else extension_index_from (eindex + 1) es name)"

definition extension_index :: "string \<Rightarrow> int" where
  "extension_index name = extension_index_from 0 known_extensions name"

definition set_c_outname :: "string \<Rightarrow> bool \<Rightarrow> bool \<Rightarrow> bool \<Rightarrow> state \<Rightarrow> state" where
  "set_c_outname name filenames_given force_ext multifile st =
     (let n1 = (if multifile then name @ ''00001'' else name);
          n2 = (if force_ext \<or> multifile \<or> (\<not> filenames_given \<and> extension_index n1 < 0)
                then n1 @ fst (known_extensions ! 0) else n1)
      in st\<lparr>output_filename := n2\<rparr>)"

definition set_d_outname :: "string \<Rightarrow> int \<Rightarrow> state \<Rightarrow> state" where
  "set_d_outname name eindex st =
     (if eindex \<ge> 0 \<and> length name > length (fst (known_extensions ! nat eindex)) then
        st\<lparr>output_filename :=
             take (length name - length (fst (known_extensions ! nat eindex))) name @
             snd (known_extensions ! nat eindex)\<rparr>
      else
        let st1 = st\<lparr>output_filename := name @ ''.out''\<rparr>
        in if verbosity st1 \<ge> 1
           then emit (Stderr (''clzip: Can't guess original name for '' @ quoted name @
                              '' -- using '' @ quoted (output_filename st1))) st1
           else st1)"

text \<open>
  \<open>open_instream\<close> gives whether the descriptor it returns is valid (\<^verbatim>\<open>infd >= 0\<close>).
\<close>

definition open_instream :: "sys \<Rightarrow> string \<Rightarrow> bool \<Rightarrow> bool \<Rightarrow> state \<Rightarrow> bool \<times> state" where
  "open_instream s name one_to_one reg_only st =
     (if \<not> open_in_ok s (trace st) name then
        (False, show_file_error name ''Can't open input file'' True st)
      else
        let st1 = emit (Open_in name) st;
            i_ok = fstat_ok s (trace st1) name;
            mode = st_mode s (trace st1) name;
            can_read = (i_ok \<and> \<not> reg_only \<and>
                        (mode = S_IFBLK \<or> mode = S_IFCHR \<or> mode = S_IFIFO \<or> mode = S_IFSOCK))
        in if \<not> i_ok \<or> (mode \<noteq> S_IFREG \<and> (\<not> can_read \<or> one_to_one)) then
             (False,
              emit (Close_in name)
                (if verbosity st1 \<ge> 0
                 then emit (Stderr (''clzip: Input file '' @ quoted name @
                        '' is not a regular file'' @
                        (if can_read \<and> one_to_one
                         then '','' @ [CHR 0x0A] @ ''       and neither '-c' nor '-o' were specified'' else []) @ ''.'')) st1
                 else st1))
           else (True, st1))"

datatype Mode = m_compress | m_decompress | m_list | m_test

definition open_instream2 ::
  "sys \<Rightarrow> string \<Rightarrow> Mode \<Rightarrow> int \<Rightarrow> bool \<Rightarrow> bool \<Rightarrow> state \<Rightarrow> bool \<times> state" where
  "open_instream2 s name program_mode eindex one_to_one recompress st =
     (if program_mode = m_compress \<and> \<not> recompress \<and> eindex \<ge> 0 then
        (False,
         if verbosity st \<ge> 0
         then emit (Stderr (''clzip: Input file '' @ quoted name @ '' already has '' @
                            quoted (fst (known_extensions ! nat eindex)) @ '' suffix.'')) st
         else st)
      else open_instream s name one_to_one False st)"

text \<open>
  \<open>open_outstream\<close> gives \<^verbatim>\<open>outfd >= 0\<close>. The descriptor of an output file that was
  opened is 3 in the model; the code only tests its sign.
\<close>

definition open_outstream :: "sys \<Rightarrow> bool \<Rightarrow> bool \<Rightarrow> state \<Rightarrow> bool \<times> state" where
  "open_outstream s force protect st =
     (if open_out_ok s (trace st) (output_filename st) force then
        (True, (emit (Open_out (output_filename st) force) st)
                 \<lparr>outfd := 3, delete_output_on_interrupt := True\<rparr>)
      else
        (False,
         (if verbosity st \<ge> 0 then
            (if open_out_eexist s (trace st) (output_filename st)
             then emit (Stderr (''clzip: Output file '' @ quoted (output_filename st) @
                                '' already exists, skipping.'')) st
             else emit (Stderr (''clzip: Can't create output file '' @
                                quoted (output_filename st))) st)
          else st)\<lparr>outfd := - 1\<rparr>))"

text \<open>
  \<open>check_tty_in\<close> gives its result and the new value of \<^verbatim>\<open>*retval\<close>.
\<close>

definition check_tty_in ::
  "lzip_h \<Rightarrow> sys \<Rightarrow> string \<Rightarrow> string \<Rightarrow> Mode \<Rightarrow> int \<Rightarrow> state \<Rightarrow> (bool \<times> int) result" where
  "check_tty_in h s input_filename infd program_mode retval st =
     (if (program_mode = m_decompress \<or> program_mode = m_test) \<and> isatty_in s (trace st) infd then
        let st1 = emit (Close_in infd)
                    (show_file_error input_filename
                       ''I won't read compressed data from a terminal.'' False st);
            retval1 = set_retval h retval 1
        in if program_mode \<noteq> m_test then cleanup_and_fail s retval1 st1
           else Ret (False, retval1) st1
      else Ret (True, retval) st)"

definition check_tty_out :: "sys \<Rightarrow> Mode \<Rightarrow> state \<Rightarrow> bool \<times> state" where
  "check_tty_out s program_mode st =
     (if program_mode = m_compress \<and> isatty_out s (trace st) (output_filename st) then
        (False,
         show_file_error (if output_filename st \<noteq> [] then output_filename st else ''(stdout)'')
           ''I won't write compressed data to a terminal.'' False st)
      else (True, st))"

text \<open>
  \<open>close_and_set_permissions\<close>: \<open>in_statsp\<close> says whether the pointer is not null.
\<close>

definition close_and_set_permissions :: "sys \<Rightarrow> bool \<Rightarrow> state \<Rightarrow> unit result" where
  "close_and_set_permissions s in_statsp st =
     (let warning1 = (in_statsp \<and> \<not> fchown_fchmod_ok s (trace st) (output_filename st));
          st1 = (if in_statsp then emit (Set_attrs (output_filename st)) st else st)
      in if \<not> close_out_ok s (trace st1) (output_filename st1) then
           cleanup_and_fail s 1 (show_error ''Error closing output file'' True False st1)
         else
           let st2 = (emit (Close_out (output_filename st1)) st1)
                       \<lparr>outfd := - 1, delete_output_on_interrupt := False\<rparr>;
               warning2 = (in_statsp \<and> \<not> utime_ok s (trace st2) (output_filename st2))
           in Ret () (if (warning1 \<or> warning2) \<and> verbosity st2 \<ge> 1
                      then show_error ''Can't change output file attributes.'' False False st2
                      else st2))"

text \<open>
  \<open>next_filename\<close> (lines 573-585) gives its result and the new \<^verbatim>\<open>output_filename\<close>.
  \<open>bump_digits j i name\<close> is the loop with \<open>j\<close> iterations left, at index \<open>i\<close>.
  Characters are compared by their codes.
\<close>

fun bump_digits :: "nat \<Rightarrow> nat \<Rightarrow> string \<Rightarrow> bool \<times> string" where
  "bump_digits 0 i name = (False, name)"
| "bump_digits (Suc j) i name =
     (if (of_char (name ! i) :: nat) < of_char (CHR ''9'')
      then (True, name[i := char_of (of_char (name ! i) + 1 :: nat)])
      else bump_digits j (i - 1) (name[i := CHR ''0'']))"

definition next_filename :: "string \<Rightarrow> bool \<times> string" where
  "next_filename name =
     (let name_len = length name; ext_len = length (fst (known_extensions ! 0))
      in if name_len \<ge> ext_len + 5 then bump_digits 5 (name_len - ext_len - 1) name
         else (False, name))"

subsection \<open>compress (main.c lines 596-680)\<close>

text \<open>Arithmetic on \<^verbatim>\<open>unsigned long long\<close>.\<close>

definition ull_add :: "nat \<Rightarrow> nat \<Rightarrow> nat" where
  "ull_add a b = (a + b) mod 2 ^ 64"

definition ull_sub :: "nat \<Rightarrow> nat \<Rightarrow> nat" where
  "ull_sub a b = (2 ^ 64 + a - b mod 2 ^ 64) mod 2 ^ 64"

text \<open>
  The loop that encodes one member per iteration (lines 636-663) is modelled in four
  parts. \<open>member_budget\<close> is \<^verbatim>\<open>size\<close> (lines 638-639). \<open>next_volume\<close> is lines 655-658:
  the current file is closed, the next name is made and the next file is opened; it
  gives whether the loop goes on (it is left with \<^verbatim>\<open>retval = 1\<close> otherwise).
  \<open>volume_check\<close> is lines 647-661, after a member that is not the last one: it gives
  whether the loop goes on and the new \<^verbatim>\<open>partial_volume_size\<close>.
\<close>

definition member_budget :: "nat \<Rightarrow> nat \<Rightarrow> nat \<Rightarrow> nat" where
  "member_budget member_size volume_size partial_volume_size =
     (if volume_size > 0 then min member_size (ull_sub volume_size partial_volume_size)
      else member_size)"

definition next_volume :: "sys \<Rightarrow> bool \<Rightarrow> state \<Rightarrow> bool result" where
  "next_volume s in_statsp st =
     (case close_and_set_permissions s in_statsp st of
        Exit status st1 \<Rightarrow> Exit status st1
      | Ret u st1 \<Rightarrow>
          (case next_filename (output_filename st1) of
             (False, name) \<Rightarrow>
               Ret False (Pp_show_msg (Some ''Too many volume files.'')
                            (st1\<lparr>output_filename := name\<rparr>))
           | (True, name) \<Rightarrow>
               (case open_outstream s True in_statsp (st1\<lparr>output_filename := name\<rparr>) of
                  (opened, st2) \<Rightarrow> Ret opened st2)))"

definition volume_check ::
  "lzip_h \<Rightarrow> sys \<Rightarrow> nat \<Rightarrow> bool \<Rightarrow> nat \<Rightarrow> nat \<Rightarrow> state \<Rightarrow> (bool \<times> nat) result" where
  "volume_check h s volume_size in_statsp partial_volume_size member_pos st =
     (if volume_size > 0 then
        let partial1 = ull_add partial_volume_size member_pos in
        if partial1 \<ge> ull_sub volume_size (min_dictionary_size h) then
          if delete_output_on_interrupt st then
            case next_volume s in_statsp st of
              Exit status st1 \<Rightarrow> Exit status st1
            | Ret go_on st1 \<Rightarrow> Ret (go_on, 0) st1
          else Ret (True, 0) st
        else Ret (True, partial1) st
      else Ret (True, partial_volume_size) st)"

text \<open>
  In \<open>compress_members\<close>, \<open>m\<close> is the encoder's answer to this iteration's call and the
  list holds the answers to the calls that follow: \<^verbatim>\<open>Mb_data_finished\<close> holds, and the
  loop ends, when the list is empty. The result is \<^verbatim>\<open>retval\<close>, \<^verbatim>\<open>in_size\<close> and \<^verbatim>\<open>out_size\<close>
  when the loop is left.
\<close>

fun compress_members ::
  "lzip_h \<Rightarrow> sys \<Rightarrow> bool \<Rightarrow> nat \<Rightarrow> nat \<Rightarrow> bool \<Rightarrow> (nat \<Rightarrow> member) \<Rightarrow> (nat \<Rightarrow> member) list \<Rightarrow>
   nat \<Rightarrow> nat \<Rightarrow> nat \<Rightarrow> state \<Rightarrow> (int \<times> nat \<times> nat) result"
where
  "compress_members h s zero member_size volume_size in_statsp m [] 
     in_size out_size partial_volume_size st =
     (let sz = member_budget member_size volume_size partial_volume_size;
          st1 = emit (Encode_member zero (output_filename st) sz (member_position (m sz))) st
      in
      if \<not> encoded (m sz)
      then Ret (1, in_size, out_size) (Pp_show_msg (Some ''Encoder error.'') st1)
      else Ret (0, ull_add in_size (data_position (m sz)),
                ull_add out_size (member_position (m sz))) st1)"
| "compress_members h s zero member_size volume_size in_statsp m (m' # ms)
     in_size out_size partial_volume_size st =
     (let sz = member_budget member_size volume_size partial_volume_size;
          st1 = emit (Encode_member zero (output_filename st) sz (member_position (m sz))) st
      in
      if \<not> encoded (m sz)
      then Ret (1, in_size, out_size) (Pp_show_msg (Some ''Encoder error.'') st1)
      else
        case volume_check h s volume_size in_statsp partial_volume_size
               (member_position (m sz)) st1 of
          Exit status st2 \<Rightarrow> Exit status st2
        | Ret (go_on, partial1) st2 \<Rightarrow>
            if go_on then
              compress_members h s zero member_size volume_size in_statsp m' ms
                (ull_add in_size (data_position (m sz)))
                (ull_add out_size (member_position (m sz))) partial1 st2
            else Ret (1, ull_add in_size (data_position (m sz)),
                      ull_add out_size (member_position (m sz))) st2)"

text \<open>
  \<open>compress\<close>: the encoder is set up (lines 608-634), the members are encoded, and the
  sizes are reported (lines 665-676); the ratios that the report prints are left out.
  \<open>input\<close> names the input for the encoder.
\<close>

definition compress ::
  "lzip_h \<Rightarrow> codec \<Rightarrow> sys \<Rightarrow> nat \<Rightarrow> nat \<Rightarrow> string \<Rightarrow> Lzma_options \<Rightarrow> bool \<Rightarrow> bool \<Rightarrow> state \<Rightarrow>
   int result" where
  "compress h c s member_size volume_size input encoder_options in_statsp zero st =
     (let st1 = (if verbosity st \<ge> 1 then Pp_show_msg None st else st);
          no_memory = Ret 1 (Pp_show_msg (Some ''Not enough memory. Try a smaller dictionary size.'') st1);
          encode = (\<lambda>ms.
            case compress_members h s zero member_size volume_size in_statsp (fst ms) (snd ms)
                   0 0 0 st1 of
              Exit status st2 \<Rightarrow> Exit status st2
            | Ret (retval, in_size, out_size) st2 \<Rightarrow>
                Ret retval
                  (if retval = 0 \<and> verbosity st2 \<ge> 1 then
                     (if in_size = 0 \<or> out_size = 0
                      then emit (Stderr '' no data compressed.'') st2
                      else emit (Stderr (show_nat in_size @ '' in, '' @ show_nat out_size @
                                         '' out.'')) st2)
                   else st2))
      in
      if zero then
        (if \<not> FLZe_init c then no_memory else encode (FLZe_members c input))
      else
        case (if match_len_limit encoder_options \<ge> int (min_match_len_limit h) \<and>
                 match_len_limit encoder_options \<le> int (max_match_len h)
              then Lh_set_dictionary_size h (dictionary_size encoder_options) else None) of
          None \<Rightarrow> internal_error ''invalid argument to encoder.'' st1
        | Some header \<Rightarrow>
            if \<not> LZe_init c (Lh_get_dictionary_size h header) (match_len_limit encoder_options)
            then no_memory
            else encode (LZe_members c (Lh_get_dictionary_size h header)
                           (match_len_limit encoder_options) input))"

subsection \<open>Numbers on the command line (main.c lines 287-358)\<close>

text \<open>
  \<open>getnum\<close>: \<open>tail\<close> is what \<^verbatim>\<open>strtoull\<close> left unread; \<^verbatim>\<open>tail[1]\<close> of a tail of one
  character is the terminating zero. The loop multiplies \<open>result\<close> by \<open>factor\<close>,
  \<open>exponent\<close> times, and stops with \<^verbatim>\<open>ERANGE\<close> when the product would pass \<open>ulimit\<close>.
\<close>

fun getnum_scale :: "nat \<Rightarrow> nat \<Rightarrow> nat \<Rightarrow> nat \<Rightarrow> nat \<times> bool" where
  "getnum_scale 0 factor ulimit r = (r, False)"
| "getnum_scale (Suc i) factor ulimit r =
     (if ulimit div factor \<ge> r then getnum_scale i factor ulimit (r * factor) else (r, True))"

definition getnum_exponent :: "string \<Rightarrow> nat \<Rightarrow> nat" where
  "getnum_exponent tail factor =
     (let t0 = hd tail in
      if t0 = CHR ''Y'' then 8 else if t0 = CHR ''Z'' then 7 else if t0 = CHR ''E'' then 6
      else if t0 = CHR ''P'' then 5 else if t0 = CHR ''T'' then 4 else if t0 = CHR ''G'' then 3
      else if t0 = CHR ''M'' then 2
      else if t0 = CHR ''K'' then (if factor = 1024 then 1 else 0)
      else if t0 = CHR ''k'' then (if factor = 1000 then 1 else 0)
      else 0)"

definition getnum :: "sys \<Rightarrow> string \<Rightarrow> nat \<Rightarrow> nat \<Rightarrow> state \<Rightarrow> nat result" where
  "getnum s ptr llimit ulimit st =
     (case strtoull s ptr of (result, used, errno) \<Rightarrow>
        if used = 0 then
          Exit 1 (show_error ''Bad or missing numerical argument.'' False True st)
        else
          let tail = drop used ptr in
          if \<not> errno \<and> tail \<noteq> [] \<and>
             getnum_exponent tail (if 1 < length tail \<and> tail ! 1 = CHR ''i'' then 1024 else 1000) = 0
          then Exit 1 (show_error ''Bad multiplier in numerical argument.'' False True st)
          else
            let factor = (if 1 < length tail \<and> tail ! 1 = CHR ''i'' then 1024 else 1000);
                (result1, errno1) =
                   (if \<not> errno \<and> tail \<noteq> []
                    then getnum_scale (getnum_exponent tail factor) factor ulimit result
                    else (result, errno));
                errno2 = (errno1 \<or> result1 < llimit \<or> result1 > ulimit)
            in if errno2
               then Exit 1 (show_error ''Numerical argument out of limits.'' False False st)
               else Ret result1 st)"

definition get_dict_size :: "lzip_h \<Rightarrow> sys \<Rightarrow> string \<Rightarrow> state \<Rightarrow> int result" where
  "get_dict_size h s arg st =
     (case strtol s arg of (bits, used) \<Rightarrow>
        if bits \<ge> min_dictionary_bits h \<and> bits \<le> max_dictionary_bits h \<and> drop used arg = []
        then Ret (2 ^ nat bits) st
        else case getnum s arg (min_dictionary_size h) (max_dictionary_size h) st of
               Exit status st1 \<Rightarrow> Exit status st1
             | Ret n st1 \<Rightarrow> Ret (int n) st1)"

definition set_mode :: "Mode \<Rightarrow> Mode \<Rightarrow> state \<Rightarrow> Mode result" where
  "set_mode program_mode new_mode st =
     (if program_mode \<noteq> m_compress \<and> program_mode \<noteq> new_mode
      then Exit 1 (show_error ''Only one operation can be specified.'' False True st)
      else Ret new_mode st)"

subsection \<open>The options (main.c lines 892-1011)\<close>

text \<open>The local variables of \<open>main\<close> that the options set.\<close>

record config =
  encoder_options :: Lzma_options
  member_size :: nat
  volume_size :: nat
  default_output_filename :: string
  program_mode :: Mode
  force :: bool
  ignore_trailing :: bool
  keep_input_files :: bool
  loose_trailing :: bool
  recompress :: bool
  to_stdout :: bool
  zero :: bool

definition option_mapping :: "Lzma_options list" where
  "option_mapping =
     [\<lparr>dictionary_size = 65536, match_len_limit = 16\<rparr>,
      \<lparr>dictionary_size = 1048576, match_len_limit = 5\<rparr>,
      \<lparr>dictionary_size = 1572864, match_len_limit = 6\<rparr>,
      \<lparr>dictionary_size = 2097152, match_len_limit = 8\<rparr>,
      \<lparr>dictionary_size = 3145728, match_len_limit = 12\<rparr>,
      \<lparr>dictionary_size = 4194304, match_len_limit = 20\<rparr>,
      \<lparr>dictionary_size = 8388608, match_len_limit = 36\<rparr>,
      \<lparr>dictionary_size = 16777216, match_len_limit = 68\<rparr>,
      \<lparr>dictionary_size = 25165824, match_len_limit = 132\<rparr>,
      \<lparr>dictionary_size = 33554432, match_len_limit = 273\<rparr>]"

definition max_member_size :: nat where
  "max_member_size = 0x0008000000000000"

definition max_volume_size :: nat where
  "max_volume_size = 0x4000000000000000"

definition config0 :: config where
  "config0 = \<lparr>
     encoder_options = option_mapping ! 6,
     member_size = max_member_size,
     volume_size = 0,
     default_output_filename = [],
     program_mode = m_compress,
     force = False,
     ignore_trailing = True,
     keep_input_files = False,
     loose_trailing = False,
     recompress = False,
     to_stdout = False,
     zero = False \<rparr>"

text \<open>
  An option as the argument parser gives it: the code of \<^verbatim>\<open>ap_code\<close> (the option's
  character, 256 for \<^verbatim>\<open>--loose-trailing\<close>, 0 for an argument that is not an option) and
  the argument of \<^verbatim>\<open>ap_argument\<close>.
\<close>

abbreviation (input) ch :: "char \<Rightarrow> int" where
  "ch c \<equiv> of_char c"

definition opt_lt :: int where
  "opt_lt = 256"

text \<open>The body of the \<^verbatim>\<open>switch\<close> (lines 980-1010), for one option.\<close>

definition process_option ::
  "lzip_h \<Rightarrow> sys \<Rightarrow> int \<Rightarrow> string \<Rightarrow> config \<Rightarrow> state \<Rightarrow> config result" where
  "process_option h s code arg cfg st =
     (if ch CHR ''0'' \<le> code \<and> code \<le> ch CHR ''9'' then
        Ret (cfg\<lparr>zero := (code = ch CHR ''0''),
                  encoder_options := option_mapping ! nat (code - ch CHR ''0'')\<rparr>) st
      else if code = ch CHR ''a'' then Ret (cfg\<lparr>ignore_trailing := False\<rparr>) st
      else if code = ch CHR ''b'' then
        (case getnum s arg 100000 max_member_size st of
           Exit status st1 \<Rightarrow> Exit status st1
         | Ret n st1 \<Rightarrow> Ret (cfg\<lparr>member_size := n\<rparr>) st1)
      else if code = ch CHR ''c'' then Ret (cfg\<lparr>to_stdout := True\<rparr>) st
      else if code = ch CHR ''d'' then
        (case set_mode (program_mode cfg) m_decompress st of
           Exit status st1 \<Rightarrow> Exit status st1
         | Ret m st1 \<Rightarrow> Ret (cfg\<lparr>program_mode := m\<rparr>) st1)
      else if code = ch CHR ''f'' then Ret (cfg\<lparr>force := True\<rparr>) st
      else if code = ch CHR ''F'' then Ret (cfg\<lparr>recompress := True\<rparr>) st
      else if code = ch CHR ''h'' then Exit 0 (emit (Stdout ''show_help'') st)
      else if code = ch CHR ''k'' then Ret (cfg\<lparr>keep_input_files := True\<rparr>) st
      else if code = ch CHR ''l'' then
        (case set_mode (program_mode cfg) m_list st of
           Exit status st1 \<Rightarrow> Exit status st1
         | Ret m st1 \<Rightarrow> Ret (cfg\<lparr>program_mode := m\<rparr>) st1)
      else if code = ch CHR ''m'' then
        (case getnum s arg (min_match_len_limit h) (max_match_len h) st of
           Exit status st1 \<Rightarrow> Exit status st1
         | Ret n st1 \<Rightarrow>
             Ret (cfg\<lparr>encoder_options := (encoder_options cfg)\<lparr>match_len_limit := int n\<rparr>,
                       zero := False\<rparr>) st1)
      else if code = ch CHR ''n'' then Ret cfg st
      else if code = ch CHR ''o'' then
        (if arg = ''-'' then Ret (cfg\<lparr>to_stdout := True\<rparr>) st
         else Ret (cfg\<lparr>default_output_filename := arg\<rparr>) st)
      else if code = ch CHR ''q'' then Ret cfg (st\<lparr>verbosity := - 1\<rparr>)
      else if code = ch CHR ''s'' then
        (case get_dict_size h s arg st of
           Exit status st1 \<Rightarrow> Exit status st1
         | Ret n st1 \<Rightarrow>
             Ret (cfg\<lparr>encoder_options := (encoder_options cfg)\<lparr>dictionary_size := n\<rparr>,
                       zero := False\<rparr>) st1)
      else if code = ch CHR ''S'' then
        (case getnum s arg 100000 max_volume_size st of
           Exit status st1 \<Rightarrow> Exit status st1
         | Ret n st1 \<Rightarrow> Ret (cfg\<lparr>volume_size := n\<rparr>) st1)
      else if code = ch CHR ''t'' then
        (case set_mode (program_mode cfg) m_test st of
           Exit status st1 \<Rightarrow> Exit status st1
         | Ret m st1 \<Rightarrow> Ret (cfg\<lparr>program_mode := m\<rparr>) st1)
      else if code = ch CHR ''v'' then
        Ret cfg (if verbosity st < 4 then st\<lparr>verbosity := verbosity st + 1\<rparr> else st)
      else if code = ch CHR ''V'' then Exit 0 (emit (Stdout ''show_version'') st)
      else if code = opt_lt then Ret (cfg\<lparr>loose_trailing := True\<rparr>) st
      else internal_error ''uncaught option.'' st)"

text \<open>
  The loop over the parsed arguments (lines 975-1011): it stops at the first argument
  that is not an option and gives the arguments from there on.
\<close>

fun process_options ::
  "lzip_h \<Rightarrow> sys \<Rightarrow> (int \<times> string) list \<Rightarrow> config \<Rightarrow> state \<Rightarrow>
   (config \<times> (int \<times> string) list) result" where
  "process_options h s [] cfg st = Ret (cfg, []) st"
| "process_options h s ((code, arg) # rest) cfg st =
     (if code = 0 then Ret (cfg, (code, arg) # rest) st
      else case process_option h s code arg cfg st of
             Exit status st1 \<Rightarrow> Exit status st1
           | Ret cfg1 st1 \<Rightarrow> process_options h s rest cfg1 st1)"

subsection \<open>The loop over the input files (main.c lines 1058-1129)\<close>

text \<open>
  The variables of \<open>main\<close> that the loop changes. The body of the loop is modelled in
  three parts: \<open>open_files\<close> (lines 1067-1105) opens the input and the output,
  \<open>run_codec\<close> (lines 1107-1115) compresses or decompresses, \<open>finish_file\<close> (lines
  1116-1128) closes the input and settles the outcome. \<open>Ret\<close> of a part is the normal
  flow or a \<^verbatim>\<open>continue\<close>; \<open>Exit\<close> is a \<^verbatim>\<open>return\<close> from \<open>main\<close> or an \<^verbatim>\<open>exit\<close>.
  The name of an input stands for its descriptor: \<open>''-''\<close> is standard input.
\<close>

record loopvars =
  retval :: int
  failed_tests :: int
  stdin_used :: bool

definition Pp_set_name :: "string \<Rightarrow> state \<Rightarrow> state" where
  "Pp_set_name filename st =
     st\<lparr>pp_name := (if filename \<noteq> [] \<and> filename \<noteq> ''-'' then filename else ''(stdin)'')\<rparr>"

text \<open>
  Lines 1092-1105: the output is checked and, with \<^verbatim>\<open>-o\<close>, opened. The result names
  the input file (\<^verbatim>\<open>input_filename\<close>) for the parts that follow.
\<close>

definition open_output ::
  "lzip_h \<Rightarrow> sys \<Rightarrow> config \<Rightarrow> bool \<Rightarrow> bool \<Rightarrow> bool \<Rightarrow> string \<Rightarrow> loopvars \<Rightarrow> state \<Rightarrow>
   (string option \<times> loopvars) result" where
  "open_output h s cfg filenames_given to_file one_to_one input_filename v st =
     (case (if one_to_one then check_tty_out s (program_mode cfg) st else (True, st)) of
        (False, st1) \<Rightarrow> Exit (set_retval h (retval v) 1) st1
      | (True, st1) \<Rightarrow>
          if to_file \<and> outfd st1 < 0 then
            let st2 = (if program_mode cfg = m_compress
                       then set_c_outname (default_output_filename cfg) filenames_given False
                              (volume_size cfg > 0) st1
                       else st1\<lparr>output_filename := default_output_filename cfg\<rparr>)
            in case open_outstream s (force cfg) False st2 of
                 (False, st3) \<Rightarrow> Exit 1 st3
               | (True, st3) \<Rightarrow>
                   (case check_tty_out s (program_mode cfg) st3 of
                      (False, st4) \<Rightarrow> Exit 1 st4
                    | (True, st4) \<Rightarrow> Ret (Some input_filename, v) st4)
          else Ret (Some input_filename, v) st1)"

definition open_files ::
  "lzip_h \<Rightarrow> sys \<Rightarrow> config \<Rightarrow> bool \<Rightarrow> bool \<Rightarrow> bool \<Rightarrow> string \<Rightarrow> loopvars \<Rightarrow> state \<Rightarrow>
   (string option \<times> loopvars) result" where
  "open_files h s cfg filenames_given to_file one_to_one filename v st0 =
     (let st = Pp_set_name filename st0 in
      if filename = ''-'' then
        if stdin_used v then Ret (None, v) st
        else
          case check_tty_in h s (pp_name st) ''-'' (program_mode cfg) (retval v) st of
            Exit status st1 \<Rightarrow> Exit status st1
          | Ret (ok, r) st1 \<Rightarrow>
              if \<not> ok then Ret (None, v\<lparr>stdin_used := True, retval := r\<rparr>) st1
              else open_output h s cfg filenames_given to_file one_to_one []
                     (v\<lparr>stdin_used := True, retval := r\<rparr>)
                     (if one_to_one then st1\<lparr>outfd := STDOUT_FILENO, output_filename := []\<rparr>
                      else st1)
      else
        case open_instream2 s filename (program_mode cfg) (extension_index filename)
               one_to_one (recompress cfg) st of
          (False, st1) \<Rightarrow> Ret (None, v\<lparr>retval := set_retval h (retval v) 1\<rparr>) st1
        | (True, st1) \<Rightarrow>
            (case check_tty_in h s (pp_name st1) filename (program_mode cfg) (retval v) st1 of
               Exit status st2 \<Rightarrow> Exit status st2
             | Ret (ok, r) st2 \<Rightarrow>
                 if \<not> ok then Ret (None, v\<lparr>retval := r\<rparr>) st2
                 else if one_to_one then
                   (case open_outstream s (force cfg) True
                           (if program_mode cfg = m_compress
                            then set_c_outname filename True True (volume_size cfg > 0) st2
                            else set_d_outname filename (extension_index filename) st2) of
                      (False, st3) \<Rightarrow>
                        Ret (None, v\<lparr>retval := set_retval h r 1\<rparr>) (emit (Close_in filename) st3)
                    | (True, st3) \<Rightarrow>
                        open_output h s cfg filenames_given to_file one_to_one filename
                          (v\<lparr>retval := r\<rparr>) st3)
                 else open_output h s cfg filenames_given to_file one_to_one filename
                        (v\<lparr>retval := r\<rparr>) st2))"

definition run_codec ::
  "lzip_h \<Rightarrow> codec \<Rightarrow> sys \<Rightarrow> config \<Rightarrow> bool \<Rightarrow> string \<Rightarrow> string \<Rightarrow> state \<Rightarrow> int result" where
  "run_codec h c s cfg one_to_one filename input_filename st =
     (if program_mode cfg = m_compress then
        compress h c s (member_size cfg) (volume_size cfg) filename (encoder_options cfg)
          (input_filename \<noteq> [] \<and> one_to_one) (zero cfg) st
      else
        decompress h c s (content s (trace st) filename) (ignore_trailing cfg)
          (loose_trailing cfg) (program_mode cfg = m_test) st)"

definition finish_file ::
  "lzip_h \<Rightarrow> sys \<Rightarrow> config \<Rightarrow> bool \<Rightarrow> string \<Rightarrow> string \<Rightarrow> int \<Rightarrow> loopvars \<Rightarrow> state \<Rightarrow>
   loopvars result" where
  "finish_file h s cfg one_to_one filename input_filename tmp v st =
     (let closed = close_in_ok s (trace st) filename;
          st1 = (if closed then emit (Close_in filename) st
                 else show_file_error (pp_name st) ''Error closing input file'' True
                        (emit (Close_in filename) st));
          tmp1 = (if closed then tmp else set_retval h tmp 1);
          v1 = v\<lparr>retval := set_retval h (retval v) tmp1\<rparr>
      in
      if tmp1 \<noteq> 0 \<and> program_mode cfg \<noteq> m_test then cleanup_and_fail s (retval v1) st1
      else
        case (if delete_output_on_interrupt st1 \<and> one_to_one
              then close_and_set_permissions s (input_filename \<noteq> [] \<and> one_to_one) st1
              else Ret () st1) of
          Exit status st2 \<Rightarrow> Exit status st2
        | Ret u st2 \<Rightarrow>
            Ret (if tmp1 \<noteq> 0 then v1\<lparr>failed_tests := failed_tests v1 + 1\<rparr> else v1)
              (if input_filename \<noteq> [] \<and> \<not> keep_input_files cfg \<and> one_to_one \<and>
                  (program_mode cfg \<noteq> m_compress \<or> volume_size cfg = 0)
               then emit (Remove input_filename) st2 else st2))"

definition process_file ::
  "lzip_h \<Rightarrow> codec \<Rightarrow> sys \<Rightarrow> config \<Rightarrow> bool \<Rightarrow> bool \<Rightarrow> bool \<Rightarrow> string \<Rightarrow> loopvars \<Rightarrow> state \<Rightarrow>
   loopvars result" where
  "process_file h c s cfg filenames_given to_file one_to_one filename v st =
     (case open_files h s cfg filenames_given to_file one_to_one filename v st of
        Exit status st1 \<Rightarrow> Exit status st1
      | Ret (None, v1) st1 \<Rightarrow> Ret v1 st1
      | Ret (Some input_filename, v1) st1 \<Rightarrow>
          (case run_codec h c s cfg one_to_one filename input_filename st1 of
             Exit status st2 \<Rightarrow> Exit status st2
           | Ret tmp st2 \<Rightarrow>
               finish_file h s cfg one_to_one filename input_filename tmp v1 st2))"

fun file_loop ::
  "lzip_h \<Rightarrow> codec \<Rightarrow> sys \<Rightarrow> config \<Rightarrow> bool \<Rightarrow> bool \<Rightarrow> bool \<Rightarrow> string list \<Rightarrow> loopvars \<Rightarrow> state \<Rightarrow>
   loopvars result" where
  "file_loop h c s cfg filenames_given to_file one_to_one [] v st = Ret v st"
| "file_loop h c s cfg filenames_given to_file one_to_one (filename # filenames) v st =
     (case process_file h c s cfg filenames_given to_file one_to_one filename v st of
        Exit status st1 \<Rightarrow> Exit status st1
      | Ret v1 st1 \<Rightarrow> file_loop h c s cfg filenames_given to_file one_to_one filenames v1 st1)"

subsection \<open>main (main.c lines 892-1144)\<close>

text \<open>
  What the argument parser (carg_parser.h) gives: whether \<^verbatim>\<open>ap_init\<close> succeeded, the
  message of \<^verbatim>\<open>ap_error\<close> if there is one, and the parsed arguments.
\<close>

record parser =
  ap_init_ok :: bool
  ap_error :: "string option"
  arguments :: "(int \<times> string) list"

definition state_init :: state where
  "state_init = \<lparr> verbosity = 0, output_filename = [], outfd = - 1,
                  delete_output_on_interrupt = False, pp_name = [], trace = [] \<rparr>"

text \<open>
  Lines 1130-1135: the output that is still open is closed. \<open>rv\<close> is \<^verbatim>\<open>retval\<close>, the
  result its new value.
\<close>

definition close_outputs :: "lzip_h \<Rightarrow> sys \<Rightarrow> int \<Rightarrow> state \<Rightarrow> int result" where
  "close_outputs h s rv st =
     (if delete_output_on_interrupt st then
        case close_and_set_permissions s False st of
          Exit status st1 \<Rightarrow> Exit status st1
        | Ret u st1 \<Rightarrow> Ret rv st1
      else if outfd st \<ge> 0 then
        (if close_out_ok s (trace st) (output_filename st)
         then Ret rv (emit (Close_out (output_filename st)) st)
         else Ret (set_retval h rv 1)
                (show_error ''Error closing stdout'' True False
                   (emit (Close_out (output_filename st)) st)))
      else Ret rv st)"

text \<open>
  Lines 1058-1143: the loop over the files, the closing of the output and the warning
  about the files that failed the test. The result is the exit status of the process and
  its last state.
\<close>

definition run_files ::
  "lzip_h \<Rightarrow> codec \<Rightarrow> sys \<Rightarrow> config \<Rightarrow> bool \<Rightarrow> bool \<Rightarrow> bool \<Rightarrow> string list \<Rightarrow> state \<Rightarrow>
   int \<times> state" where
  "run_files h c s cfg filenames_given to_file one_to_one filenames st =
     (case file_loop h c s cfg filenames_given to_file one_to_one filenames
             \<lparr>retval = 0, failed_tests = 0, stdin_used = False\<rparr> st of
        Exit status st1 \<Rightarrow> (status, st1)
      | Ret v st1 \<Rightarrow>
          (case close_outputs h s (retval v) st1 of
             Exit status st2 \<Rightarrow> (status, st2)
           | Ret retval1 st2 \<Rightarrow>
               (retval1,
                if failed_tests v > 0 \<and> verbosity st2 \<ge> 1 \<and> length filenames > 1
                then emit (Stderr (''clzip: warning: '' @ show_nat (nat (failed_tests v)) @
                       (if failed_tests v = 1 then '' file'' else '' files'') @
                       '' failed the test.'')) st2
                else st2)))"

text \<open>
  Lines 1018-1057: \<open>cfg\<close> holds the variables as the options left them, \<open>rest\<close> the
  arguments that are not options. \<open>apply_overrides\<close> is lines 1040-1042.
\<close>

definition apply_overrides :: "config \<Rightarrow> config" where
  "apply_overrides cfg =
     (let cfg1 = (if program_mode cfg = m_compress then cfg else cfg\<lparr>volume_size := 0\<rparr>);
          cfg2 = (if program_mode cfg1 = m_test then cfg1\<lparr>to_stdout := False\<rparr> else cfg1)
      in if program_mode cfg2 = m_test \<or> to_stdout cfg2
         then cfg2\<lparr>default_output_filename := []\<rparr> else cfg2)"

definition main_files ::
  "lzip_h \<Rightarrow> codec \<Rightarrow> sys \<Rightarrow> config \<Rightarrow> (int \<times> string) list \<Rightarrow> state \<Rightarrow> int \<times> state" where
  "main_files h c s cfg rest st =
     (let filenames = (if rest = [] then [''-''] else map snd rest);
          filenames_given = list_ex (\<lambda>f. f \<noteq> ''-'') (map snd rest)
      in
      if program_mode cfg = m_list then
        (list_files s filenames (ignore_trailing cfg) (loose_trailing cfg), st)
      else if program_mode cfg = m_compress \<and> volume_size cfg > 0 \<and> \<not> to_stdout cfg \<and>
              default_output_filename cfg \<noteq> [] \<and> length filenames > 1 then
        (1, show_error ''Only can compress one file when using '-o' and '-S'.'' False True st)
      else
        let cfg3 = apply_overrides cfg;
            st1 = st\<lparr>output_filename := []\<rparr>;
            (tty_ok, st2) =
               (if to_stdout cfg3 \<and> program_mode cfg3 \<noteq> m_test
                then check_tty_out s (program_mode cfg3) (st1\<lparr>outfd := STDOUT_FILENO\<rparr>)
                else (True, st1\<lparr>outfd := - 1\<rparr>))
        in
        if \<not> tty_ok then (1, st2)
        else
          let to_file = (\<not> to_stdout cfg3 \<and> program_mode cfg3 \<noteq> m_test \<and>
                         default_output_filename cfg3 \<noteq> []);
              one_to_one = (\<not> to_stdout cfg3 \<and> program_mode cfg3 \<noteq> m_test \<and> \<not> to_file)
          in run_files h c s cfg3 filenames_given to_file one_to_one filenames st2)"

definition main :: "lzip_h \<Rightarrow> codec \<Rightarrow> sys \<Rightarrow> parser \<Rightarrow> int \<times> state" where
  "main h c s p =
     (if \<not> ap_init_ok p then (1, show_error (mem_msg h) False False state_init)
      else case ap_error p of
        Some msg \<Rightarrow> (1, show_error msg False True state_init)
      | None \<Rightarrow>
          (case process_options h s (arguments p) config0 state_init of
             Exit status st \<Rightarrow> (status, st)
           | Ret (cfg, rest) st \<Rightarrow> main_files h c s cfg rest st))"

subsection \<open>A concrete lzip.h, codec and system\<close>

text \<open>
  Modelled from the spec: the constants and inline functions of lzip.h (lzip.h is not
  among the sources). The spec: 4 magic bytes "LZIP", 1 version byte (accept 1), 1
  dictionary-size byte whose low 5 bits give \<open>bits\<close> and whose high 3 bits give \<open>frac\<close>,
  with \<open>ds = 2^bits - (2^bits / 16) * frac\<close>; a dictionary size is valid from 4 KiB to
  512 MiB; the match length limit goes from 5 to 273. The spec names a truncated and a
  corrupt-looking header without defining them: here the bytes read are a truncated
  header when they agree with the magic bytes as far as both go, and a header looks
  corrupt when two or three of its four magic bytes are right. The spec orders the
  exit statuses by severity, and \<open>set_retval\<close> keeps the highest one seen.
  The theorems below do not depend on this instance: it supplies their concrete inputs.
\<close>

definition lzip_magic :: "byte list" where
  "lzip_magic = [0x4C, 0x5A, 0x49, 0x50]"

definition spec_isvalid_ds :: "nat \<Rightarrow> bool" where
  "spec_isvalid_ds ds = (4096 \<le> ds \<and> ds \<le> 536870912)"

definition spec_verify_prefix :: "byte list \<Rightarrow> nat \<Rightarrow> bool" where
  "spec_verify_prefix data sz = (sz > 0 \<and> take (min sz 4) data = take (min sz 4) lzip_magic)"

definition spec_verify_corrupt :: "byte list \<Rightarrow> bool" where
  "spec_verify_corrupt data =
     (let matches = length (filter (\<lambda>(a, b). a = b) (zip (take 4 data) lzip_magic))
      in 1 < matches \<and> matches < 4)"

definition spec_get_dictionary_size :: "byte list \<Rightarrow> nat" where
  "spec_get_dictionary_size data =
     (let bits = unat ((data ! 5) AND 0x1F); frac = unat (drop_bit 5 (data ! 5))
      in 2 ^ bits - (2 ^ bits div 16) * frac)"

text \<open>
  \<open>Lh_set_dictionary_size\<close> writes the dictionary-size byte of the smallest size the
  byte can hold that is not below the size asked for.
\<close>

definition spec_set_dictionary_size :: "int \<Rightarrow> byte list option" where
  "spec_set_dictionary_size sz =
     (if sz < 0 \<or> \<not> spec_isvalid_ds (nat sz) then None
      else
        let bits = hd (filter (\<lambda>b. nat sz \<le> 2 ^ b) [12 ..< 30]);
            frac = (if nat sz > 4096
                    then last (0 # filter (\<lambda>i. nat sz \<le> 2 ^ bits - i * (2 ^ bits div 16)) [1 ..< 8])
                    else 0)
        in Some [0x4C, 0x5A, 0x49, 0x50, 0x01, of_nat (bits + 32 * frac)])"

definition lzip_h_spec :: lzip_h where
  "lzip_h_spec = \<lparr>
     min_dictionary_bits = 12,
     max_dictionary_bits = 29,
     min_dictionary_size = 4096,
     max_dictionary_size = 536870912,
     min_match_len_limit = 5,
     max_match_len = 273,
     bad_magic_msg = ''Bad magic number (file not in lzip format).'',
     bad_dict_msg = ''Invalid dictionary size in member header.'',
     corrupt_mm_msg = ''Corrupt header in multimember file.'',
     trailing_msg = ''Trailing data not allowed.'',
     mem_msg = ''Not enough memory.'',
     isvalid_ds = spec_isvalid_ds,
     Lh_verify_magic = (\<lambda>data. take 4 data = lzip_magic),
     Lh_verify_prefix = spec_verify_prefix,
     Lh_verify_corrupt = spec_verify_corrupt,
     Lh_version = (\<lambda>data. data ! 4),
     Lh_verify_version = (\<lambda>data. data ! 4 = 1),
     Lh_get_dictionary_size = spec_get_dictionary_size,
     Lh_set_dictionary_size = spec_set_dictionary_size,
     set_retval = max \<rparr>"

text \<open>
  The member that lzip writes for the empty input (36 bytes: header, 10 bytes of payload,
  trailer), and a codec whose decoder knows this one member: it finds the member sound
  when its 30 bytes follow the header, reading them all, and reports a decoder error
  otherwise.
\<close>

definition empty_payload :: "byte list" where
  "empty_payload =
     [0x00, 0x83, 0xFF, 0xFB, 0xFF, 0xFF, 0xC0, 0x00, 0x00, 0x00,
      0x00, 0x00, 0x00, 0x00,
      0x00, 0x00, 0x00, 0x00, 0x00, 0x00, 0x00, 0x00,
      0x24, 0x00, 0x00, 0x00, 0x00, 0x00, 0x00, 0x00]"

definition empty_member :: "byte list" where
  "empty_member = [0x4C, 0x5A, 0x49, 0x50, 0x01, 0x0C] @ empty_payload"

definition codec_empty :: codec where
  "codec_empty = \<lparr>
     Rd_init = True,
     LZd_init = (\<lambda>ds. True),
     LZd_decode_member = (\<lambda>ds inp. if take 30 inp = empty_payload then (0, 30) else (1, length inp)),
     FLZe_init = True,
     LZe_init = (\<lambda>ds mll. True),
     FLZe_members = (\<lambda>name. (\<lambda>sz. \<lparr>encoded = True, data_position = 0, member_position = 36\<rparr>, [])),
     LZe_members = (\<lambda>ds mll name.
        (\<lambda>sz. \<lparr>encoded = True, data_position = 0, member_position = 36\<rparr>, [])) \<rparr>"

definition state0 :: state where
  "state0 = \<lparr> verbosity = 0, output_filename = [], outfd = - 1,
              delete_output_on_interrupt = False, pp_name = ''(stdin)'', trace = [] \<rparr>"

text \<open>
  A system in which every call succeeds, every input is a regular file, nothing is a
  terminal, the inputs hold \<open>files\<close>, and \<^verbatim>\<open>strtoull\<close> and \<^verbatim>\<open>strtol\<close> read decimal digits.
\<close>

fun read_decimal :: "string \<Rightarrow> nat \<Rightarrow> nat \<Rightarrow> nat \<times> nat" where
  "read_decimal [] v n = (v, n)"
| "read_decimal (x # xs) v n =
     (if (of_char (CHR ''0'') :: nat) \<le> of_char x \<and> (of_char x :: nat) \<le> of_char (CHR ''9'')
      then read_decimal xs (10 * v + (of_char x - of_char (CHR ''0''))) (n + 1)
      else (v, n))"

definition sys_ok :: "(string \<Rightarrow> byte list) \<Rightarrow> sys" where
  "sys_ok files = \<lparr>
     strtoull = (\<lambda>str. case read_decimal str 0 0 of (v, n) \<Rightarrow> (v, n, False)),
     strtol = (\<lambda>str. case read_decimal str 0 0 of (v, n) \<Rightarrow> (int v, n)),
     open_in_ok = (\<lambda>tr name. True),
     fstat_ok = (\<lambda>tr name. True),
     st_mode = (\<lambda>tr name. S_IFREG),
     isatty_in = (\<lambda>tr name. False),
     isatty_out = (\<lambda>tr name. False),
     content = (\<lambda>tr name. files name),
     close_in_ok = (\<lambda>tr name. True),
     open_out_ok = (\<lambda>tr name force. True),
     open_out_eexist = (\<lambda>tr name. False),
     fchown_fchmod_ok = (\<lambda>tr name. True),
     close_out_ok = (\<lambda>tr name. True),
     utime_ok = (\<lambda>tr name. True),
     remove_fails = (\<lambda>tr name. False),
     list_files = (\<lambda>names ignore_trailing loose_trailing. 0) \<rparr>"

subsection \<open>Sound members\<close>

text \<open>
  A member \<open>m\<close>, followed in the input by \<open>after\<close>, is sound when its header passes the
  checks of \<open>decompress\<close>, the decoder can be set up, and the decoder reads the member
  to its end and reports no error. \<open>after_member\<close> is the state in which \<open>decompress\<close>
  leaves such a member.
\<close>

definition sound_member :: "lzip_h \<Rightarrow> codec \<Rightarrow> byte list \<Rightarrow> byte list \<Rightarrow> bool" where
  "sound_member h c m after =
     (length m > Lh_size \<and>
      Lh_verify_magic h (take Lh_size m) \<and>
      Lh_verify_version h (take Lh_size m) \<and>
      isvalid_ds h (Lh_get_dictionary_size h (take Lh_size m)) \<and>
      LZd_init c (Lh_get_dictionary_size h (take Lh_size m)) \<and>
      LZd_decode_member c (Lh_get_dictionary_size h (take Lh_size m)) (drop Lh_size m @ after) =
        (0, length m - Lh_size))"

fun sound_members :: "lzip_h \<Rightarrow> codec \<Rightarrow> byte list list \<Rightarrow> byte list \<Rightarrow> bool" where
  "sound_members h c [] after = True"
| "sound_members h c (m # ms) after =
     (sound_member h c m (concat ms @ after) \<and> sound_members h c ms after)"

definition after_member :: "lzip_h \<Rightarrow> bool \<Rightarrow> bool \<Rightarrow> byte list \<Rightarrow> state \<Rightarrow> state" where
  "after_member h testing first_member m st =
     (let st1 = (if verbosity st \<ge> 2 \<or> (verbosity st = 1 \<and> first_member)
                 then Pp_show_msg None st else st);
          st2 = emit (Decode_member (Lh_get_dictionary_size h (take Lh_size m))) st1
      in if verbosity st2 \<ge> 2
         then emit (Stderr (if testing then ''ok'' else ''done'')) st2 else st2)"

fun after_members :: "lzip_h \<Rightarrow> bool \<Rightarrow> bool \<Rightarrow> byte list list \<Rightarrow> state \<Rightarrow> state" where
  "after_members h testing first_member [] st = st"
| "after_members h testing first_member (m # ms) st =
     after_members h testing False ms (after_member h testing first_member m st)"

text \<open>What a call gave: the value it returned, or the status the process ended with.\<close>

definition returned :: "'a result \<Rightarrow> 'a option" where
  "returned r = (case r of Exit status st \<Rightarrow> None | Ret v st \<Rightarrow> Some v)"

definition exit_status :: "'a result \<Rightarrow> int option" where
  "exit_status r = (case r of Exit status st \<Rightarrow> Some status | Ret v st \<Rightarrow> None)"

definition last_state :: "'a result \<Rightarrow> state" where
  "last_state r = (case r of Exit status st \<Rightarrow> st | Ret v st \<Rightarrow> st)"

subsection \<open>The encoder that the options select\<close>

text \<open>
  \<open>fast_selected opts z\<close> follows the words of the claim about the level-0 encoder, not
  the code: going through the options up to the first argument that is not an option,
  a compression level selects the fast encoder when it is \<^verbatim>\<open>-0\<close> and the optimal one
  otherwise, \<^verbatim>\<open>-m\<close> and \<^verbatim>\<open>-s\<close> select the optimal encoder, and every other option leaves
  the selection \<open>z\<close> as it is.
\<close>

definition is_level :: "int \<Rightarrow> bool" where
  "is_level code = (ch CHR ''0'' \<le> code \<and> code \<le> ch CHR ''9'')"

fun fast_selected :: "(int \<times> string) list \<Rightarrow> bool \<Rightarrow> bool" where
  "fast_selected [] z = z"
| "fast_selected ((code, arg) # opts) z =
     (if code = 0 then z
      else fast_selected opts
             (if is_level code then code = ch CHR ''0''
              else if code = ch CHR ''m'' \<or> code = ch CHR ''s'' then False
              else z))"

subsection \<open>What a run removed, and the state after an input was closed\<close>

text \<open>
  \<open>removed tr\<close> lists the files that the calls of \<^verbatim>\<open>remove\<close> in the trace name.
  \<open>input_closed\<close> is the state after lines 1116-1118 closed the input.
\<close>

fun removed :: "event list \<Rightarrow> string list" where
  "removed [] = []"
| "removed (Remove name # es) = name # removed es"
| "removed (e # es) = removed es"

definition input_closed :: "sys \<Rightarrow> string \<Rightarrow> state \<Rightarrow> state" where
  "input_closed s filename st =
     (if close_in_ok s (trace st) filename then emit (Close_in filename) st
      else show_file_error (pp_name st) ''Error closing input file'' True
             (emit (Close_in filename) st))"

text \<open>
  The status that the loop over the files keeps in \<^verbatim>\<open>retval\<close> is 0, 1 or 2.
\<close>

definition retval_ok :: "loopvars \<Rightarrow> bool" where
  "retval_ok v = (0 \<le> retval v \<and> retval v \<le> 2)"

subsection \<open>Volumes\<close>

text \<open>
  \<open>digits k n\<close> is the number \<open>n\<close> written with \<open>k\<close> decimal digits (the last \<open>k\<close> digits
  when \<open>n\<close> has more), as the counter in the name of a volume.
\<close>

fun digits :: "nat \<Rightarrow> nat \<Rightarrow> string" where
  "digits 0 n = []"
| "digits (Suc k) n = digits k (n div 10) @ [digit_char (n mod 10)]"

text \<open>
  \<open>volumes_ok member_size V name opened n es\<close> reads the events \<open>es\<close> of a compression
  into volumes of at most \<open>V\<close> bytes, starting with the output file \<open>name\<close>, open or
  closed as \<open>opened\<close> says, that holds \<open>n\<close> bytes. It holds when: every member is
  encoded while a file is open, into that file and as a whole; the size budget of the
  member is the smaller of \<open>member_size\<close> and what is left of \<open>V\<close> in the file; the
  file does not pass \<open>V\<close> bytes; the file that is closed is the current one; and a file
  is opened only after the current one was closed, under the name that \<open>next_filename\<close>
  makes of the current name.
\<close>

fun volumes_ok :: "nat \<Rightarrow> nat \<Rightarrow> string \<Rightarrow> bool \<Rightarrow> nat \<Rightarrow> event list \<Rightarrow> bool" where
  "volumes_ok msz V name opened n [] = True"
| "volumes_ok msz V name opened n (Encode_member z f sz w # es) =
     (opened \<and> f = name \<and> sz = min msz (V - n) \<and> n + w \<le> V \<and>
      volumes_ok msz V name opened (n + w) es)"
| "volumes_ok msz V name opened n (Close_out f # es) =
     (f = name \<and> volumes_ok msz V name False n es)"
| "volumes_ok msz V name opened n (Open_out f overwrite # es) =
     (\<not> opened \<and> next_filename name = (True, f) \<and> volumes_ok msz V f True 0 es)"
| "volumes_ok msz V name opened n (e # es) = volumes_ok msz V name opened n es"

text \<open>The events that \<open>volumes_ok\<close> passes over.\<close>

fun other_event :: "event \<Rightarrow> bool" where
  "other_event (Encode_member z f sz w) = False"
| "other_event (Close_out f) = False"
| "other_event (Open_out f overwrite) = False"
| "other_event e = True"

section \<open>Properties\<close>

subsection \<open>Auxiliary facts\<close>

lemma digit_char_simps:
  "digit_char 0 = CHR ''0''" "digit_char 1 = CHR ''1''" "digit_char 2 = CHR ''2''"
  "digit_char 3 = CHR ''3''" "digit_char 4 = CHR ''4''" "digit_char 5 = CHR ''5''"
  "digit_char 6 = CHR ''6''" "digit_char 7 = CHR ''7''" "digit_char 8 = CHR ''8''"
  "digit_char 9 = CHR ''9''"
  by code_simp+

lemma emit_simps [simp]:
  "verbosity (emit e st) = verbosity st"
  "output_filename (emit e st) = output_filename st"
  "outfd (emit e st) = outfd st"
  "delete_output_on_interrupt (emit e st) = delete_output_on_interrupt st"
  "pp_name (emit e st) = pp_name st"
  "trace (emit e st) = trace st @ [e]"
  by (simp_all add: emit_def)

lemma Pp_show_msg_simps [simp]:
  "verbosity (Pp_show_msg msg st) = verbosity st"
  "output_filename (Pp_show_msg msg st) = output_filename st"
  "outfd (Pp_show_msg msg st) = outfd st"
  "delete_output_on_interrupt (Pp_show_msg msg st) = delete_output_on_interrupt st"
  "pp_name (Pp_show_msg msg st) = pp_name st"
  "trace (Pp_show_msg msg st) = trace st @ (if verbosity st \<ge> 0 then [Pp_msg msg] else [])"
  by (simp_all add: Pp_show_msg_def)

lemma show_error_simps [simp]:
  "verbosity (show_error msg e hp st) = verbosity st"
  "output_filename (show_error msg e hp st) = output_filename st"
  "outfd (show_error msg e hp st) = outfd st"
  "delete_output_on_interrupt (show_error msg e hp st) = delete_output_on_interrupt st"
  "pp_name (show_error msg e hp st) = pp_name st"
  "trace (show_error msg e hp st) =
     trace st @ (if verbosity st \<ge> 0 then [Show_error msg e hp] else [])"
  by (simp_all add: show_error_def)

lemma show_file_error_simps [simp]:
  "verbosity (show_file_error f msg e st) = verbosity st"
  "output_filename (show_file_error f msg e st) = output_filename st"
  "outfd (show_file_error f msg e st) = outfd st"
  "delete_output_on_interrupt (show_file_error f msg e st) = delete_output_on_interrupt st"
  "pp_name (show_file_error f msg e st) = pp_name st"
  "trace (show_file_error f msg e st) =
     trace st @ (if verbosity st \<ge> 0 then [Show_file_error f msg e] else [])"
  by (simp_all add: show_file_error_def)

lemma verbosity_after_member [simp]: "verbosity (after_member h t f m st) = verbosity st"
  by (simp add: after_member_def Let_def)

lemma verbosity_after_members [simp]: "verbosity (after_members h t f ms st) = verbosity st"
  by (induction ms arbitrary: f st) simp_all

lemma pp_name_after_member [simp]: "pp_name (after_member h t f m st) = pp_name st"
  by (simp add: after_member_def Let_def)

lemma pp_name_after_members [simp]: "pp_name (after_members h t f ms st) = pp_name st"
  by (induction ms arbitrary: f st) simp_all

lemma show_trailing_data_simps [simp]:
  "fst (show_trailing_data h d sz a i st) = (i > 0)"
  "verbosity (snd (show_trailing_data h d sz a i st)) = verbosity st"
  "pp_name (snd (show_trailing_data h d sz a i st)) = pp_name st"
  by (simp_all add: show_trailing_data_def Let_def)

lemma trailing_buf_examples:
  "trailing_buf [0x00] (Suc 0) True = ''trailing data = 00 '' @ quoted ''.''"
  "trailing_buf [0x4C, 0x5A, 0x78, 0x50, 0x01, 0x0C] 6 False =
     ''first bytes of trailing data = 4C 5A 78 50 01 0C '' @ quoted ''LZxP..''"
  by code_simp+

text \<open>The definitions that the concrete inputs of the witnesses unfold.\<close>

lemmas concrete_defs = Let_def Lh_size_def lzip_h_spec_def codec_empty_def
  empty_member_def empty_payload_def state0_def lzip_magic_def spec_verify_prefix_def
  spec_verify_corrupt_def spec_isvalid_ds_def spec_get_dictionary_size_def
  show_trailing_data_def Pp_show_msg_def show_file_error_def emit_def int_of_bool_def
  sound_member_def after_member_def

subsection \<open>Sound members are decoded one after the other\<close>

lemma decompress_members_sound:
  assumes "sound_member h c m after"
  shows "decompress_members h c ignore loose testing first pos (m @ after) st =
         decompress_members h c ignore loose testing False (pos + length m) after
           (after_member h testing first m st)"
proof -
  from assms have len: "Lh_size < length m" by (simp add: sound_member_def)
  then have hd: "take Lh_size (m @ after) = take Lh_size m"
    and rest: "drop Lh_size (m @ after) = drop Lh_size m @ after"
    and ne: "drop Lh_size m \<noteq> []"
    by simp_all
  from len have pos: "pos + (Lh_size + (length m - Lh_size)) = pos + length m" by simp
  show ?thesis
    using assms ne
    by (subst decompress_members.simps)
       (simp add: hd rest sound_member_def Let_def after_member_def pos)
qed

lemma decompress_members_sound_list:
  "sound_members h c ms after \<Longrightarrow>
   decompress_members h c ignore loose testing first pos (concat ms @ after) st =
   decompress_members h c ignore loose testing (first \<and> ms = []) (pos + length (concat ms)) after
     (after_members h testing first ms st)"
proof (induction ms arbitrary: first pos st)
  case Nil
  then show ?case by simp
next
  case (Cons m ms)
  then show ?case
    using decompress_members_sound [of h c m "concat ms @ after" ignore loose testing first pos st]
    by (simp add: add.assoc)
qed

subsection \<open>Trailing data\<close>

text \<open>
  What follows the last member is trailing data for \<open>decompress\<close> when it is not taken
  for a header: when the input ends within the next \<open>Lh_size\<close> bytes, these are not a
  truncated header (\<open>Lh_verify_prefix\<close>); otherwise they do not start with the magic
  bytes and, unless \<^verbatim>\<open>--loose-trailing\<close> is given, do not look like a corrupt header.
\<close>

lemma decompress_members_trailing:
  assumes "t \<noteq> []"
      and "if drop Lh_size t = [] then \<not> Lh_verify_prefix h (take Lh_size t) (length t)
           else \<not> Lh_verify_magic h (take Lh_size t) \<and>
                (loose \<or> \<not> Lh_verify_corrupt h (take Lh_size t))"
  shows "decompress_members h c ignore loose testing False pos t st =
           (if ignore then 0 else 2,
            snd (show_trailing_data h (take Lh_size t) (min (length t) Lh_size)
                   (drop Lh_size t = []) (int_of_bool ignore) st))"
proof (cases "drop Lh_size t = []")
  case True
  then have "min (length t) Lh_size = length t" by simp
  with True assms show ?thesis
    by (subst decompress_members.simps)
       (simp add: Let_def show_trailing_data_def int_of_bool_def)
next
  case False
  then have "min (length t) Lh_size = Lh_size" by simp
  with False assms show ?thesis
    by (subst decompress_members.simps)
       (auto simp add: Let_def show_trailing_data_def int_of_bool_def)
qed

text \<open>
  Claim C2, as stated, fails: after a sound member, bytes that do not form a member
  header make \<open>decompress\<close> return 2 although \<open>ignore_trailing\<close> is true, when they are
  a truncated header (the two bytes "LZ") or look like a corrupt header (the seven bytes
  "LZxP", 1, 12, 0, without \<^verbatim>\<open>--loose-trailing\<close>).
\<close>

theorem trailing_data_policy_counterexample:
  "sound_members lzip_h_spec codec_empty [empty_member] [0x4C, 0x5A] \<and>
   \<not> Lh_verify_magic lzip_h_spec [0x4C, 0x5A] \<and>
   returned (decompress lzip_h_spec codec_empty (sys_ok (\<lambda>name. []))
               (concat [empty_member] @ [0x4C, 0x5A]) True False False state0) = Some 2 \<and>
   sound_members lzip_h_spec codec_empty [empty_member] [0x4C, 0x5A, 0x78, 0x50, 0x01, 0x0C, 0x00] \<and>
   \<not> Lh_verify_magic lzip_h_spec [0x4C, 0x5A, 0x78, 0x50, 0x01, 0x0C] \<and>
   returned (decompress lzip_h_spec codec_empty (sys_ok (\<lambda>name. []))
               (concat [empty_member] @ [0x4C, 0x5A, 0x78, 0x50, 0x01, 0x0C, 0x00])
               True False False state0) = Some 2"
  by (simp add: decompress_def decompress_members.simps returned_def concrete_defs)

text \<open>
  Claim C2, amended: for every input made of at least one sound member followed by
  trailing data (bytes that are neither a truncated header nor start with the magic
  bytes nor, unless \<open>loose_trailing\<close> is set, look like a corrupt header),
  \<open>decompress\<close> returns 0 when \<open>ignore_trailing\<close> is true and 2 when it is false. With
  \<open>ignore_trailing\<close> it writes no error: the trace gains the dump of the trailing
  bytes when the verbosity is 4 or more, and the closing "ok" or "done".
\<close>

theorem trailing_data_policy:
  assumes "Rd_init c"
      and "ms \<noteq> []"
      and "sound_members h c ms t"
      and "t \<noteq> []"
      and "if drop Lh_size t = [] then \<not> Lh_verify_prefix h (take Lh_size t) (length t)
           else \<not> Lh_verify_magic h (take Lh_size t) \<and>
                (loose \<or> \<not> Lh_verify_corrupt h (take Lh_size t))"
  shows "decompress h c s (concat ms @ t) ignore loose testing st =
           Ret (if ignore then 0 else 2)
             (let st1 = snd (show_trailing_data h (take Lh_size t) (min (length t) Lh_size)
                               (drop Lh_size t = []) (int_of_bool ignore)
                               (after_members h testing True ms st))
              in if verbosity st = 1 \<and> ignore
                 then emit (Stderr (if testing then ''ok'' else ''done'')) st1 else st1)
         \<and> trace (last_state (decompress h c s (concat ms @ t) True loose testing st)) =
             trace (after_members h testing True ms st) @
             (if verbosity st \<ge> 4
              then [Pp_msg (Some (trailing_buf (take Lh_size t) (min (length t) Lh_size)
                                    (drop Lh_size t = [])))]
              else []) @
             (if verbosity st = 1 then [Stderr (if testing then ''ok'' else ''done'')] else [])"
  using assms
  by (simp add: decompress_def decompress_members_sound_list decompress_members_trailing
        last_state_def show_trailing_data_def int_of_bool_def Let_def)

text \<open>
  The witness: the member of the empty file followed by one zero byte, with
  \<open>ignore_trailing\<close> and with \<^verbatim>\<open>--trailing-error\<close>.
\<close>

theorem trailing_data_policy_witness:
  "decompress lzip_h_spec codec_empty (sys_ok (\<lambda>name. [])) (concat [empty_member] @ [0x00])
     True False False state0 =
   Ret 0 (state0\<lparr>trace := [Decode_member 4096]\<rparr>) \<and>
   decompress lzip_h_spec codec_empty (sys_ok (\<lambda>name. [])) (concat [empty_member] @ [0x00])
     False False False state0 =
   Ret 2 (state0\<lparr>trace := [Decode_member 4096,
                              Pp_msg (Some (''trailing data = 00 '' @ quoted ''.'')),
                              Show_file_error ''(stdin)'' ''Trailing data not allowed.'' False]\<rparr>)"
  using trailing_data_policy
          [of codec_empty "[empty_member]" lzip_h_spec "[0x00]" False "sys_ok (\<lambda>name. [])"
              True False state0]
        trailing_data_policy
          [of codec_empty "[empty_member]" lzip_h_spec "[0x00]" False "sys_ok (\<lambda>name. [])"
              False False state0]
  by (simp add: concrete_defs trailing_buf_examples)

subsection \<open>Corrupt headers after a member\<close>

lemma decompress_members_corrupt:
  assumes "drop Lh_size t \<noteq> []"
      and "\<not> Lh_verify_magic h (take Lh_size t)"
      and "Lh_verify_corrupt h (take Lh_size t)"
      and "\<not> loose"
  shows "decompress_members h c ignore loose testing False pos t st =
           (2, snd (show_trailing_data h (take Lh_size t) Lh_size False (- 1)
                      (Pp_show_msg (Some (corrupt_mm_msg h)) st)))"
proof -
  from assms(1) have "min (length t) Lh_size = Lh_size" by simp
  with assms show ?thesis
    by (subst decompress_members.simps) (simp add: Let_def)
qed

text \<open>
  Claim C3, as stated, fails: the five bytes "LZxP", 1 after a sound member start like a
  corrupt header (the magic bytes are wrong, the corrupt-header test holds), yet without
  \<^verbatim>\<open>--loose-trailing\<close> \<open>decompress\<close> returns 0. The input ends within the header, so the
  bytes are handled as trailing data before the corrupt-header test is reached.
\<close>

theorem corrupt_header_after_member_counterexample:
  "sound_members lzip_h_spec codec_empty [empty_member] [0x4C, 0x5A, 0x78, 0x50, 0x01] \<and>
   \<not> Lh_verify_magic lzip_h_spec [0x4C, 0x5A, 0x78, 0x50, 0x01] \<and>
   Lh_verify_corrupt lzip_h_spec [0x4C, 0x5A, 0x78, 0x50, 0x01] \<and>
   returned (decompress lzip_h_spec codec_empty (sys_ok (\<lambda>name. []))
               (concat [empty_member] @ [0x4C, 0x5A, 0x78, 0x50, 0x01]) True False False state0) = Some 0"
  by (simp add: decompress_def decompress_members.simps returned_def concrete_defs)
text \<open>
  Claim C3, amended: for every input where a sound member is followed by more than
  \<open>Lh_size\<close> bytes that do not start with the magic bytes but pass the corrupt-header
  test: if \<open>loose_trailing\<close> is false, \<open>decompress\<close> returns 2 after giving
  \<open>corrupt_mm_msg\<close> and the first bytes to \<open>Pp_show_msg\<close>; if \<open>loose_trailing\<close> is true,
  the bytes are trailing data, and the result is 0 or 2 as \<open>ignore_trailing\<close> says.
\<close>

theorem corrupt_header_after_member:
  assumes "Rd_init c"
      and "ms \<noteq> []"
      and "sound_members h c ms t"
      and "drop Lh_size t \<noteq> []"
      and "\<not> Lh_verify_magic h (take Lh_size t)"
      and "Lh_verify_corrupt h (take Lh_size t)"
  shows "decompress h c s (concat ms @ t) ignore loose testing st =
           (if loose then
              Ret (if ignore then 0 else 2)
                (let st1 = snd (show_trailing_data h (take Lh_size t) Lh_size False
                                  (int_of_bool ignore) (after_members h testing True ms st))
                 in if verbosity st = 1 \<and> ignore
                    then emit (Stderr (if testing then ''ok'' else ''done'')) st1 else st1)
            else
              Ret 2 (snd (show_trailing_data h (take Lh_size t) Lh_size False (- 1)
                            (Pp_show_msg (Some (corrupt_mm_msg h))
                               (after_members h testing True ms st)))))"
proof (cases loose)
  case True
  from assms(4) have t: "t \<noteq> []" and m: "min (length t) Lh_size = Lh_size" by auto
  from True assms(4,5)
  have "if drop Lh_size t = [] then \<not> Lh_verify_prefix h (take Lh_size t) (length t)
        else \<not> Lh_verify_magic h (take Lh_size t) \<and>
             (loose \<or> \<not> Lh_verify_corrupt h (take Lh_size t))"
    by simp
  from decompress_members_trailing [OF t this] assms(1-4) True m show ?thesis
    by (simp add: decompress_def decompress_members_sound_list Let_def)
next
  case False
  with assms show ?thesis
    by (simp add: decompress_def decompress_members_sound_list decompress_members_corrupt
          show_trailing_data_def)
qed

text \<open>
  The witness: the member of the empty file followed by the seven bytes "LZxP", 1, 12, 0,
  without and with \<^verbatim>\<open>--loose-trailing\<close>.
\<close>

theorem corrupt_header_after_member_witness:
  "decompress lzip_h_spec codec_empty (sys_ok (\<lambda>name. []))
     (concat [empty_member] @ [0x4C, 0x5A, 0x78, 0x50, 0x01, 0x0C, 0x00]) True False False state0 =
   Ret 2 (state0\<lparr>trace := [Decode_member 4096,
            Pp_msg (Some ''Corrupt header in multimember file.''),
            Pp_msg (Some (''first bytes of trailing data = 4C 5A 78 50 01 0C '' @ quoted ''LZxP..''))]\<rparr>) \<and>
   decompress lzip_h_spec codec_empty (sys_ok (\<lambda>name. []))
     (concat [empty_member] @ [0x4C, 0x5A, 0x78, 0x50, 0x01, 0x0C, 0x00]) True True False state0 =
   Ret 0 (state0\<lparr>trace := [Decode_member 4096]\<rparr>)"
  using corrupt_header_after_member
          [of codec_empty "[empty_member]" lzip_h_spec "[0x4C, 0x5A, 0x78, 0x50, 0x01, 0x0C, 0x00]"
              "sys_ok (\<lambda>name. [])" True False False state0]
        corrupt_header_after_member
          [of codec_empty "[empty_member]" lzip_h_spec "[0x4C, 0x5A, 0x78, 0x50, 0x01, 0x0C, 0x00]"
              "sys_ok (\<lambda>name. [])" True True False state0]
  by (simp add: concrete_defs trailing_buf_examples)

subsection \<open>Members of an unsupported version\<close>

lemma decompress_members_bad_version:
  assumes "drop Lh_size inp \<noteq> []"
      and "Lh_verify_magic h (take Lh_size inp)"
      and "\<not> Lh_verify_version h (take Lh_size inp)"
  shows "decompress_members h c ignore loose testing first pos inp st =
           (2, Pp_show_msg (Some (bad_version (unat (Lh_version h (take Lh_size inp))))) st)"
  using assms by (subst decompress_members.simps) (simp add: Let_def)

text \<open>
  Claim C4: a member whose header has the right magic bytes but a version that is not
  supported stops the decompression with result 2, before any of its payload is decoded,
  and with the message "Version N member format not supported.", N being the version
  byte. The member may be the first of the input or follow any number of sound members
  \<open>ms\<close>; it has bytes after its header (\<open>drop Lh_size inp \<noteq> []\<close>). The last state is the
  one the sound members left, with the message given to \<open>Pp_show_msg\<close>: the trace gains
  no \<open>Decode_member\<close> for this member, and it gains the message unless clzip runs quiet
  (\<^verbatim>\<open>-q\<close>, a negative verbosity).
\<close>

theorem unsupported_version_rejected:
  assumes "Rd_init c"
      and "sound_members h c ms inp"
      and "drop Lh_size inp \<noteq> []"
      and "Lh_verify_magic h (take Lh_size inp)"
      and "\<not> Lh_verify_version h (take Lh_size inp)"
  shows "decompress h c s (concat ms @ inp) ignore loose testing st =
           Ret 2 (Pp_show_msg (Some (bad_version (unat (Lh_version h (take Lh_size inp)))))
                    (after_members h testing True ms st))
         \<and> trace (last_state (decompress h c s (concat ms @ inp) ignore loose testing st)) =
           trace (after_members h testing True ms st) @
           (if verbosity st \<ge> 0
            then [Pp_msg (Some (''Version '' @ show_nat (unat (Lh_version h (take Lh_size inp))) @
                                '' member format not supported.''))]
            else [])"
  using assms
  by (simp add: decompress_def decompress_members_sound_list decompress_members_bad_version
        last_state_def bad_version_def)

text \<open>
  The witness: the member of the empty file, followed by the same member with the
  version byte 2.
\<close>

theorem unsupported_version_rejected_witness:
  "decompress lzip_h_spec codec_empty (sys_ok (\<lambda>name. []))
     (concat [empty_member] @ [0x4C, 0x5A, 0x49, 0x50, 0x02, 0x0C] @ empty_payload)
     True False False state0 =
   Ret 2 (state0\<lparr>trace := [Decode_member 4096,
                              Pp_msg (Some ''Version 2 member format not supported.'')]\<rparr>)"
  using unsupported_version_rejected
          [of codec_empty lzip_h_spec "[empty_member]"
              "[0x4C, 0x5A, 0x49, 0x50, 0x02, 0x0C] @ empty_payload"
              "sys_ok (\<lambda>name. [])" True False False state0]
  by (simp add: concrete_defs bad_version_def show_nat.simps digit_char_simps)

subsection \<open>Members with an invalid dictionary size\<close>

lemma decompress_members_bad_dict:
  assumes "drop Lh_size inp \<noteq> []"
      and "Lh_verify_magic h (take Lh_size inp)"
      and "\<not> isvalid_ds h (Lh_get_dictionary_size h (take Lh_size inp))"
  shows "decompress_members h c ignore loose testing first pos inp st =
           (2, Pp_show_msg
                 (Some (if Lh_verify_version h (take Lh_size inp) then bad_dict_msg h
                        else bad_version (unat (Lh_version h (take Lh_size inp))))) st)"
  using assms by (subst decompress_members.simps) (simp add: Let_def)

text \<open>
  Claim C5: a member whose header carries a dictionary size that \<open>isvalid_ds\<close> refuses
  is rejected with result 2 before its payload is decoded: the last state is the one
  the sound members before it left (no \<open>Decode_member\<close> for this member), with the
  message \<open>bad_dict_msg\<close> given to \<open>Pp_show_msg\<close>, or the message of the unsupported
  version when the version byte is wrong as well. The member has the magic bytes and
  bytes after its header.
\<close>

theorem invalid_dictionary_size_rejected:
  assumes "Rd_init c"
      and "sound_members h c ms inp"
      and "drop Lh_size inp \<noteq> []"
      and "Lh_verify_magic h (take Lh_size inp)"
      and "\<not> isvalid_ds h (Lh_get_dictionary_size h (take Lh_size inp))"
  shows "decompress h c s (concat ms @ inp) ignore loose testing st =
           Ret 2 (Pp_show_msg
                    (Some (if Lh_verify_version h (take Lh_size inp) then bad_dict_msg h
                           else bad_version (unat (Lh_version h (take Lh_size inp)))))
                    (after_members h testing True ms st))"
  using assms
  by (simp add: decompress_def decompress_members_sound_list decompress_members_bad_dict)

text \<open>
  The witness: a first member whose dictionary-size byte gives 2 KiB, and a second member
  whose byte gives 1 GiB.
\<close>

theorem invalid_dictionary_size_rejected_witness:
  "spec_get_dictionary_size [0x4C, 0x5A, 0x49, 0x50, 0x01, 0x0B] = 2048 \<and>
   spec_get_dictionary_size [0x4C, 0x5A, 0x49, 0x50, 0x01, 0x1E] = 1073741824 \<and>
   decompress lzip_h_spec codec_empty (sys_ok (\<lambda>name. []))
     (concat [] @ [0x4C, 0x5A, 0x49, 0x50, 0x01, 0x0B] @ empty_payload)
     True False False state0 =
   Ret 2 (state0\<lparr>trace := [Pp_msg (Some ''Invalid dictionary size in member header.'')]\<rparr>) \<and>
   decompress lzip_h_spec codec_empty (sys_ok (\<lambda>name. []))
     (concat [empty_member] @ [0x4C, 0x5A, 0x49, 0x50, 0x01, 0x1E] @ empty_payload)
     True False False state0 =
   Ret 2 (state0\<lparr>trace := [Decode_member 4096,
                              Pp_msg (Some ''Invalid dictionary size in member header.'')]\<rparr>)"
  using invalid_dictionary_size_rejected
          [of codec_empty lzip_h_spec "[]"
              "[0x4C, 0x5A, 0x49, 0x50, 0x01, 0x0B] @ empty_payload"
              "sys_ok (\<lambda>name. [])" True False False state0]
        invalid_dictionary_size_rejected
          [of codec_empty lzip_h_spec "[empty_member]"
              "[0x4C, 0x5A, 0x49, 0x50, 0x01, 0x1E] @ empty_payload"
              "sys_ok (\<lambda>name. [])" True False False state0]
  by (simp add: concrete_defs)

end
